theory Spec2Isabelle
  imports Complex_Main
begin

section \<open>JavaScript numbers\<close>

text \<open>
  The virtual list component computes with JavaScript numbers. A number is modelled as a
  finite value, negative zero, one of the two infinities, or NaN, so that a division by
  zero is a branch of the model and not the arbitrary value HOL gives \<open>x / 0\<close>.

  Two idealisations are made.

  \<^item> A finite value is an exact rational: a result is not rounded to a double and does
    not overflow to an infinity. Sums, differences and products of integers within
    \<open>2 ^ 53\<close> are exact in doubles, and the floor and the ceiling of the rounded quotient
    of two such integers are those of the exact quotient; rounding is monotone, so it
    never inverts the order of two results.

  \<^item> \<open>Fin 0\<close> is the zero \<open>+0\<close> and \<open>NegZero\<close> is \<open>-0\<close> when they are given (a prop or a
    ref). An operation reads \<open>NegZero\<close> as zero and returns \<open>Fin 0\<close> for a zero result of
    either sign. The sign of a zero shows only when the zero is a divisor, and the one
    divisor in the component is the prop \<open>itemHeight\<close> as it is given.
\<close>

datatype jsnum = Fin rat | NegZero | PInf | NInf | NaN

fun js_add :: "jsnum \<Rightarrow> jsnum \<Rightarrow> jsnum" where
  "js_add (Fin a) (Fin b) = Fin (a + b)"
| "js_add NaN _ = NaN"
| "js_add _ NaN = NaN"
| "js_add NegZero NegZero = Fin 0"
| "js_add NegZero y = y"
| "js_add x NegZero = x"
| "js_add PInf NInf = NaN"
| "js_add NInf PInf = NaN"
| "js_add PInf _ = PInf"
| "js_add _ PInf = PInf"
| "js_add NInf _ = NInf"
| "js_add _ NInf = NInf"

fun js_sub :: "jsnum \<Rightarrow> jsnum \<Rightarrow> jsnum" where
  "js_sub (Fin a) (Fin b) = Fin (a - b)"
| "js_sub NaN _ = NaN"
| "js_sub _ NaN = NaN"
| "js_sub NegZero NegZero = Fin 0"
| "js_sub NegZero (Fin b) = Fin (- b)"
| "js_sub x NegZero = x"
| "js_sub PInf PInf = NaN"
| "js_sub NInf NInf = NaN"
| "js_sub PInf _ = PInf"
| "js_sub NInf _ = NInf"
| "js_sub _ PInf = NInf"
| "js_sub _ NInf = PInf"

fun js_mul :: "jsnum \<Rightarrow> jsnum \<Rightarrow> jsnum" where
  "js_mul (Fin a) (Fin b) = Fin (a * b)"
| "js_mul NaN _ = NaN"
| "js_mul _ NaN = NaN"
| "js_mul NegZero NegZero = Fin 0"
| "js_mul NegZero (Fin b) = Fin 0"
| "js_mul (Fin a) NegZero = Fin 0"
| "js_mul NegZero _ = NaN"
| "js_mul _ NegZero = NaN"
| "js_mul (Fin a) PInf = (if a = 0 then NaN else if 0 < a then PInf else NInf)"
| "js_mul (Fin a) NInf = (if a = 0 then NaN else if 0 < a then NInf else PInf)"
| "js_mul PInf (Fin b) = (if b = 0 then NaN else if 0 < b then PInf else NInf)"
| "js_mul NInf (Fin b) = (if b = 0 then NaN else if 0 < b then NInf else PInf)"
| "js_mul PInf PInf = PInf"
| "js_mul PInf NInf = NInf"
| "js_mul NInf PInf = NInf"
| "js_mul NInf NInf = PInf"

text \<open>
  Division: a non-zero finite number or an infinity divided by a zero is the infinity
  whose sign is the product of the two signs, and a zero divided by a zero is NaN.
\<close>

fun js_div :: "jsnum \<Rightarrow> jsnum \<Rightarrow> jsnum" where
  "js_div (Fin a) (Fin b) =
     (if b = 0 then (if a = 0 then NaN else if 0 < a then PInf else NInf)
      else Fin (a / b))"
| "js_div NaN _ = NaN"
| "js_div _ NaN = NaN"
| "js_div (Fin a) NegZero = (if a = 0 then NaN else if 0 < a then NInf else PInf)"
| "js_div NegZero NegZero = NaN"
| "js_div NegZero (Fin b) = (if b = 0 then NaN else Fin 0)"
| "js_div PInf NegZero = NInf"
| "js_div NInf NegZero = PInf"
| "js_div (Fin a) _ = Fin 0"
| "js_div NegZero _ = Fin 0"
| "js_div PInf (Fin b) = (if 0 \<le> b then PInf else NInf)"
| "js_div NInf (Fin b) = (if 0 \<le> b then NInf else PInf)"
| "js_div _ _ = NaN"

text \<open>\<open>Math.floor\<close> and \<open>Math.ceil\<close>: the infinities and NaN are returned unchanged.\<close>

fun js_floor :: "jsnum \<Rightarrow> jsnum" where
  "js_floor (Fin a) = Fin (of_int \<lfloor>a\<rfloor>)"
| "js_floor NegZero = Fin 0"
| "js_floor x = x"

fun js_ceil :: "jsnum \<Rightarrow> jsnum" where
  "js_ceil (Fin a) = Fin (of_int \<lceil>a\<rceil>)"
| "js_ceil NegZero = Fin 0"
| "js_ceil x = x"

text \<open>\<open>Math.max\<close> and \<open>Math.min\<close> of two arguments: NaN as soon as one argument is NaN.\<close>

fun js_max :: "jsnum \<Rightarrow> jsnum \<Rightarrow> jsnum" where
  "js_max (Fin a) (Fin b) = Fin (max a b)"
| "js_max NaN _ = NaN"
| "js_max _ NaN = NaN"
| "js_max PInf _ = PInf"
| "js_max _ PInf = PInf"
| "js_max NegZero NegZero = Fin 0"
| "js_max NegZero (Fin b) = Fin (max 0 b)"
| "js_max (Fin a) NegZero = Fin (max a 0)"
| "js_max NegZero NInf = Fin 0"
| "js_max NInf NegZero = Fin 0"
| "js_max NInf y = y"
| "js_max x NInf = x"

fun js_min :: "jsnum \<Rightarrow> jsnum \<Rightarrow> jsnum" where
  "js_min (Fin a) (Fin b) = Fin (min a b)"
| "js_min NaN _ = NaN"
| "js_min _ NaN = NaN"
| "js_min NInf _ = NInf"
| "js_min _ NInf = NInf"
| "js_min NegZero NegZero = Fin 0"
| "js_min NegZero (Fin b) = Fin (min 0 b)"
| "js_min (Fin a) NegZero = Fin (min a 0)"
| "js_min NegZero PInf = Fin 0"
| "js_min PInf NegZero = Fin 0"
| "js_min PInf y = y"
| "js_min x PInf = x"

text \<open>The comparison \<open>x < y\<close>: false as soon as one side is NaN.\<close>

fun js_lt :: "jsnum \<Rightarrow> jsnum \<Rightarrow> bool" where
  "js_lt (Fin a) (Fin b) = (a < b)"
| "js_lt NaN _ = False"
| "js_lt _ NaN = False"
| "js_lt NegZero NegZero = False"
| "js_lt NegZero (Fin b) = (0 < b)"
| "js_lt (Fin a) NegZero = (a < 0)"
| "js_lt NInf NInf = False"
| "js_lt NInf _ = True"
| "js_lt _ NInf = False"
| "js_lt PInf _ = False"
| "js_lt _ PInf = True"

section \<open>Values, items and \<open>Array.prototype.slice\<close>\<close>

text \<open>
  The values a field of a dataset item can hold. \<open>JRef\<close> stands for a reference to an
  object, array or function, which is always truthy.
\<close>

datatype jsval = Undefined | Null | JBool bool | JNum jsnum | JStr string | JRef nat

text \<open>
  A dataset item (the prop is typed \<open>any[]\<close>) is an object, given by its own fields, or
  \<open>null\<close> or \<open>undefined\<close>. Properties inherited from the prototype and items that are
  primitive values are not modelled.
\<close>

datatype item = IUndefined | INull | IObj "(string \<times> jsval) list"

datatype error = TypeError

text \<open>\<open>item[k]\<close>: reading a property of \<open>null\<close> or \<open>undefined\<close> throws a TypeError, a missing
  property reads as \<open>undefined\<close>.\<close>

fun get_prop :: "item \<Rightarrow> string \<Rightarrow> error + jsval" where
  "get_prop IUndefined k = Inl TypeError"
| "get_prop INull k = Inl TypeError"
| "get_prop (IObj fs) k = Inr (case map_of fs k of None \<Rightarrow> Undefined | Some v \<Rightarrow> v)"

fun truthy :: "jsval \<Rightarrow> bool" where
  "truthy Undefined = False"
| "truthy Null = False"
| "truthy (JBool b) = b"
| "truthy (JNum n) = (n \<noteq> Fin 0 \<and> n \<noteq> NegZero \<and> n \<noteq> NaN)"
| "truthy (JStr s) = (s \<noteq> [])"
| "truthy (JRef r) = True"

text \<open>The operator \<open>a || b\<close> on values.\<close>

definition js_or :: "jsval \<Rightarrow> jsval \<Rightarrow> jsval" where
  "js_or a b = (if truthy a then a else b)"

text \<open>The abstract operation ToIntegerOrInfinity: NaN and the zeros become 0, a finite
  number is truncated towards zero.\<close>

datatype int_or_inf = IInt int | IPosInf | INegInf

fun to_integer_or_infinity :: "jsnum \<Rightarrow> int_or_inf" where
  "to_integer_or_infinity NaN = IInt 0"
| "to_integer_or_infinity NegZero = IInt 0"
| "to_integer_or_infinity PInf = IPosInf"
| "to_integer_or_infinity NInf = INegInf"
| "to_integer_or_infinity (Fin a) = IInt (if 0 \<le> a then \<lfloor>a\<rfloor> else \<lceil>a\<rceil>)"

text \<open>The position that \<open>slice\<close> derives from a relative start or end: a negative value
  counts from the end of the array, and the result is clamped to \<open>[0, len]\<close>.\<close>

fun slice_pos :: "int \<Rightarrow> int_or_inf \<Rightarrow> int" where
  "slice_pos len INegInf = 0"
| "slice_pos len IPosInf = len"
| "slice_pos len (IInt r) = (if r < 0 then max (len + r) 0 else min r len)"

definition slice :: "'a list \<Rightarrow> jsnum \<Rightarrow> jsnum \<Rightarrow> 'a list" where
  "slice xs start end =
     (let len = int (length xs);
          k = slice_pos len (to_integer_or_infinity start);
          final = slice_pos len (to_integer_or_infinity end)
      in take (nat (final - k)) (drop (nat k) xs))"

section \<open>The virtual list component\<close>

datatype height = HNum jsnum | HStr string

record props =
  props_data :: "item list"
  props_height :: height
  props_itemHeight :: jsnum
  props_keyField :: "string option"
  props_buffer :: "jsnum option"

text \<open>The two refs of the component, \<open>scrollTop\<close> and \<open>containerHeight\<close>, both created as 0.\<close>

record state =
  scrollTop :: jsnum
  containerHeight :: jsnum

definition init_state :: state where
  "init_state = \<lparr>scrollTop = Fin 0, containerHeight = Fin 0\<rparr>"

definition defaultKeyField :: string where
  "defaultKeyField = ''id''"

definition defaultBuffer :: jsnum where
  "defaultBuffer = Fin 5"

text \<open>\<open>props.keyField || defaultKeyField\<close>: an absent prop is \<open>undefined\<close>; the empty string is
  falsy as well.\<close>

definition keyField :: "props \<Rightarrow> string" where
  "keyField p = (case props_keyField p of
                   None \<Rightarrow> defaultKeyField
                 | Some k \<Rightarrow> if k = [] then defaultKeyField else k)"

text \<open>\<open>props.buffer || defaultBuffer\<close>: the falsy numbers are the two zeros and NaN.\<close>

definition buffer :: "props \<Rightarrow> jsnum" where
  "buffer p = (case props_buffer p of
                 None \<Rightarrow> defaultBuffer
               | Some b \<Rightarrow> if b = Fin 0 \<or> b = NegZero \<or> b = NaN then defaultBuffer
                          else b)"

definition startIndex :: "props \<Rightarrow> state \<Rightarrow> jsnum" where
  "startIndex p st =
     js_floor (js_div (js_max (Fin 0)
                         (js_sub (scrollTop st) (js_mul (buffer p) (props_itemHeight p))))
                      (props_itemHeight p))"

definition endIndex :: "props \<Rightarrow> state \<Rightarrow> jsnum" where
  "endIndex p st =
     js_min (js_sub (Fin (of_nat (length (props_data p)))) (Fin 1))
            (js_ceil (js_div (js_add (js_add (scrollTop st) (containerHeight st))
                                     (js_mul (buffer p) (props_itemHeight p)))
                             (props_itemHeight p)))"

definition visibleData :: "props \<Rightarrow> state \<Rightarrow> item list" where
  "visibleData p st = slice (props_data p) (startIndex p st) (js_add (endIndex p st) (Fin 1))"

definition offsetY :: "props \<Rightarrow> state \<Rightarrow> jsnum" where
  "offsetY p st = js_mul (startIndex p st) (props_itemHeight p)"

definition totalHeight :: "props \<Rightarrow> jsnum" where
  "totalHeight p = js_mul (Fin (of_nat (length (props_data p)))) (props_itemHeight p)"

definition handleScroll :: "jsnum \<Rightarrow> state \<Rightarrow> state" where
  "handleScroll target_scrollTop st = st\<lparr>scrollTop := target_scrollTop\<rparr>"

subsection \<open>The template\<close>

text \<open>
  One child of the \<open>v-for\<close>: its \<open>:key\<close>, and the two slot props \<open>item\<close> and \<open>index\<close>.
\<close>

record child =
  child_key :: jsval
  slot_item :: item
  slot_index :: jsnum

text \<open>\<open>v-for="(item, index) in visibleData"\<close>, with \<open>:key="item[keyField] || index"\<close> and the
  slot bound to \<open>item\<close> and \<open>startIndex + index\<close>. The first item whose key cannot be read
  aborts the rendering.\<close>

fun v_for :: "props \<Rightarrow> state \<Rightarrow> nat \<Rightarrow> item list \<Rightarrow> error + child list" where
  "v_for p st index [] = Inr []"
| "v_for p st index (item # rest) =
     (case get_prop item (keyField p) of
        Inl e \<Rightarrow> Inl e
      | Inr v \<Rightarrow>
          (case v_for p st (Suc index) rest of
             Inl e \<Rightarrow> Inl e
           | Inr cs \<Rightarrow>
               Inr (\<lparr>child_key = js_or v (JNum (Fin (of_nat index))),
                     slot_item = item,
                     slot_index = js_add (startIndex p st) (Fin (of_nat index))\<rparr> # cs)))"

text \<open>What one render pass hands to the host: the height of the spacer, the vertical
  translation of the content, and the children.\<close>

record view =
  wrapper_height :: jsnum
  translateY :: jsnum
  children :: "child list"

definition render :: "props \<Rightarrow> state \<Rightarrow> error + view" where
  "render p st =
     (case v_for p st 0 (visibleData p st) of
        Inl e \<Rightarrow> Inl e
      | Inr cs \<Rightarrow> Inr \<lparr>wrapper_height = totalHeight p, translateY = offsetY p st, children = cs\<rparr>)"

text \<open>The items whose properties can be read: every item but \<open>null\<close> and \<open>undefined\<close>.\<close>

fun is_object :: "item \<Rightarrow> bool" where
  "is_object (IObj fs) = True"
| "is_object x = False"

section \<open>The window on finite inputs\<close>

text \<open>
  With a finite, non-zero item height and finite scroll offset, container height and
  buffer, the two indices are the floor and the ceiling that the source writes.
\<close>

lemma startIndex_fin:
  assumes "props_itemHeight p = Fin h" "h \<noteq> 0" "scrollTop st = Fin s" "buffer p = Fin b"
  shows "startIndex p st = Fin (of_int \<lfloor>max 0 (s - b * h) / h\<rfloor>)"
  using assms by (simp add: startIndex_def)

lemma endIndex_fin:
  assumes "props_itemHeight p = Fin h" "h \<noteq> 0" "scrollTop st = Fin s"
    "containerHeight st = Fin c" "buffer p = Fin b"
  shows "endIndex p st =
           Fin (of_int (min (int (length (props_data p)) - 1) \<lceil>(s + c + b * h) / h\<rceil>))"
  using assms by (simp add: endIndex_def of_int_min)

lemma slice_int:
  "slice xs (Fin (of_int a)) (Fin (of_int e)) =
     take (nat (slice_pos (int (length xs)) (IInt e) - slice_pos (int (length xs)) (IInt a)))
          (drop (nat (slice_pos (int (length xs)) (IInt a))) xs)"
  by (simp add: slice_def Let_def)

lemma js_add_one_int: "js_add (Fin (of_int e)) (Fin 1) = Fin (of_int (e + 1))"
  by simp

lemma length_slice_window:
  assumes "0 \<le> a" "- 1 \<le> e" "e \<le> int (length xs) - 1"
  shows "length (slice xs (Fin (of_int a)) (js_add (Fin (of_int e)) (Fin 1))) = nat (e - a + 1)"
proof -
  have "length (slice xs (Fin (of_int a)) (js_add (Fin (of_int e)) (Fin 1)))
           = length (slice xs (Fin (of_int a)) (Fin (of_int (e + 1))))"
    by (simp only: js_add_one_int)
  also have "\<dots> = nat (e - a + 1)"
    using assms unfolding slice_int by (simp add: min_def max_def) linarith
  finally show ?thesis .
qed

subsection \<open>Arithmetic of the two indices\<close>

lemma start_nonneg:
  fixes h s b :: rat
  assumes "0 < h"
  shows "0 \<le> \<lfloor>max 0 (s - b * h) / h\<rfloor>"
  using assms by simp

lemma start_le_ceiling:
  fixes h s b c :: rat
  assumes "0 < h" "0 \<le> s" "0 \<le> c" "0 \<le> b"
  shows "\<lfloor>max 0 (s - b * h) / h\<rfloor> \<le> \<lceil>(s + c + b * h) / h\<rceil>"
proof -
  have "0 \<le> b * h" using assms by simp
  then have "max 0 (s - b * h) \<le> s + c + b * h" using assms by simp
  then have "max 0 (s - b * h) / h \<le> (s + c + b * h) / h"
    using assms(1) by (simp add: divide_right_mono)
  then have "\<lfloor>max 0 (s - b * h) / h\<rfloor> \<le> \<lfloor>(s + c + b * h) / h\<rfloor>"
    by (rule floor_mono)
  also have "\<dots> \<le> \<lceil>(s + c + b * h) / h\<rceil>" by (rule floor_le_ceiling)
  finally show ?thesis .
qed

lemma start_lt_length:
  fixes h s b :: rat
  assumes "0 < h" "0 \<le> s" "0 \<le> b" "s < of_nat L * h"
  shows "\<lfloor>max 0 (s - b * h) / h\<rfloor> \<le> int L - 1"
proof -
  have "0 \<le> b * h" using assms by simp
  then have "max 0 (s - b * h) \<le> s" using assms by simp
  then have "max 0 (s - b * h) < of_nat L * h" using assms(4) by simp
  then have "max 0 (s - b * h) / h < of_int (int L)"
    using assms(1) by (simp add: pos_divide_less_eq)
  then have "\<lfloor>max 0 (s - b * h) / h\<rfloor> < int L" by (simp only: floor_less_iff)
  then show ?thesis by simp
qed

lemma end_ge_minus_one:
  fixes h s b c :: rat
  assumes "0 < h" "0 \<le> s" "0 \<le> c" "0 \<le> b"
  shows "- 1 \<le> min (int L - 1) \<lceil>(s + c + b * h) / h\<rceil>"
proof -
  have "0 \<le> (s + c + b * h) / h" using assms by simp
  then have "\<lceil>0::rat\<rceil> \<le> \<lceil>(s + c + b * h) / h\<rceil>" by (rule ceiling_mono)
  then have "0 \<le> \<lceil>(s + c + b * h) / h\<rceil>" by (simp only: ceiling_zero)
  then have "- 1 \<le> \<lceil>(s + c + b * h) / h\<rceil>" by linarith
  moreover have "- 1 \<le> int L - 1" by simp
  ultimately show ?thesis by (simp only: min.bounded_iff)
qed







subsection \<open>Monotonicity in the container height\<close>

lemma startIndex_containerHeight:
  "startIndex p (st\<lparr>containerHeight := x\<rparr>) = startIndex p st"
  by (simp add: startIndex_def)

lemma end_mono:
  fixes h s b c c' :: rat
  assumes "0 < h" "c' \<le> c"
  shows "min (int L - 1) \<lceil>(s + c' + b * h) / h\<rceil> \<le> min (int L - 1) \<lceil>(s + c + b * h) / h\<rceil>"
proof -
  have "(s + c' + b * h) / h \<le> (s + c + b * h) / h"
    using assms by (simp add: divide_right_mono)
  then have "\<lceil>(s + c' + b * h) / h\<rceil> \<le> \<lceil>(s + c + b * h) / h\<rceil>" by (rule ceiling_mono)
  then show ?thesis by (simp add: min.coboundedI2)
qed

section \<open>The slice and the template\<close>

lemma slice_Nil: "slice [] a b = []"
  by (simp add: slice_def Let_def)

lemma render_no_data:
  assumes "visibleData p st = []"
  shows "render p st = Inr \<lparr>wrapper_height = totalHeight p, translateY = offsetY p st, children = []\<rparr>"
  using assms by (simp add: render_def)

lemma get_prop_object:
  assumes "is_object x"
  shows "\<exists>v. get_prop x k = Inr v"
  using assms by (cases x) simp_all

lemma v_for_total:
  assumes "\<forall>x \<in> set xs. is_object x"
  shows "\<exists>cs. v_for p st n xs = Inr cs"
  using assms
proof (induction xs arbitrary: n)
  case Nil
  show ?case by simp
next
  case (Cons x xs)
  from Cons.prems have "is_object x" by simp
  then obtain v where v: "get_prop x (keyField p) = Inr v"
    using get_prop_object by blast
  from Cons.prems have "\<forall>y \<in> set xs. is_object y" by simp
  then obtain cs where "v_for p st (Suc n) xs = Inr cs"
    using Cons.IH by blast
  then show ?case using v by simp
qed

lemma v_for_children:
  assumes "v_for p st n xs = Inr cs"
  shows "length cs = length xs
       \<and> (\<forall>j < length xs.
            slot_item (cs ! j) = xs ! j
          \<and> slot_index (cs ! j) = js_add (startIndex p st) (Fin (of_nat (n + j)))
          \<and> (\<exists>v. get_prop (xs ! j) (keyField p) = Inr v
                 \<and> child_key (cs ! j) = js_or v (JNum (Fin (of_nat (n + j))))))"
  using assms
proof (induction xs arbitrary: n cs)
  case Nil
  then show ?case by simp
next
  case (Cons x xs)
  from Cons.prems obtain v cs' where
    v: "get_prop x (keyField p) = Inr v" and
    r: "v_for p st (Suc n) xs = Inr cs'" and
    c: "cs = \<lparr>child_key = js_or v (JNum (Fin (of_nat n))), slot_item = x,
               slot_index = js_add (startIndex p st) (Fin (of_nat n))\<rparr> # cs'"
    by (auto split: sum.splits)
  note ih = Cons.IH [OF r]
  have len: "length cs = length (x # xs)" using ih c by simp
  have "slot_item (cs ! j) = (x # xs) ! j
          \<and> slot_index (cs ! j) = js_add (startIndex p st) (Fin (of_nat (n + j)))
          \<and> (\<exists>w. get_prop ((x # xs) ! j) (keyField p) = Inr w
                 \<and> child_key (cs ! j) = js_or w (JNum (Fin (of_nat (n + j)))))"
    if "j < length (x # xs)" for j
  proof (cases j)
    case 0
    then show ?thesis using v c by simp
  next
    case (Suc i)
    then have "i < length xs" using that by simp
    then show ?thesis using ih c Suc by simp
  qed
  then show ?case using len by blast
qed

lemma slice_from_start:
  assumes "0 \<le> a" and "j < length (slice xs (Fin (of_int a)) en)"
  shows "nat a + j < length xs \<and> slice xs (Fin (of_int a)) en ! j = xs ! (nat a + j)"
proof -
  let ?L = "int (length xs)"
  let ?f = "slice_pos ?L (to_integer_or_infinity en)"
  have k: "slice_pos ?L (to_integer_or_infinity (Fin (of_int a))) = min a ?L"
    using assms(1) by simp
  have sl: "slice xs (Fin (of_int a)) en = take (nat (?f - min a ?L)) (drop (nat (min a ?L)) xs)"
    unfolding slice_def Let_def k ..
  have j: "j < length (take (nat (?f - min a ?L)) (drop (nat (min a ?L)) xs))"
    using assms(2) unfolding sl .
  then have jl: "j < length xs - nat (min a ?L)" by simp
  then have "a < ?L" by (cases "a < ?L") (simp_all add: min_def)
  then have m: "nat (min a ?L) = nat a" by (simp add: min_def)
  have lt: "nat a + j < length xs" using jl unfolding m by simp
  have "take (nat (?f - min a ?L)) (drop (nat (min a ?L)) xs) ! j = xs ! (nat a + j)"
    using j lt unfolding m by simp
  then show ?thesis using lt unfolding sl by simp
qed

lemma slice_inverted:
  assumes "0 \<le> a" and "- 1 \<le> e" and "e < a \<or> int (length xs) \<le> a"
  shows "slice xs (Fin (of_int a)) (js_add (Fin (of_int e)) (Fin 1)) = []"
proof -
  have "slice xs (Fin (of_int a)) (Fin (of_int (e + 1))) = []"
    unfolding slice_int using assms by (auto simp add: min_def max_def)
  then show ?thesis by (simp only: js_add_one_int)
qed

lemma slice_subset: "set (slice xs a b) \<subseteq> set xs"
proof -
  have "set (take n (drop k xs)) \<subseteq> set xs" for n k
    using set_take_subset [of n "drop k xs"] set_drop_subset [of k xs] by blast
  then show ?thesis by (simp add: slice_def Let_def)
qed

lemma render_total:
  assumes "\<forall>x \<in> set (props_data p). is_object x"
  shows "\<exists>v. render p st = Inr v"
proof -
  have "set (visibleData p st) \<subseteq> set (props_data p)"
    unfolding visibleData_def by (rule slice_subset)
  then have "\<forall>x \<in> set (visibleData p st). is_object x" using assms by blast
  then obtain cs where "v_for p st 0 (visibleData p st) = Inr cs"
    using v_for_total by blast
  then show ?thesis by (simp add: render_def)
qed

lemma render_children:
  assumes "render p st = Inr v"
  shows "v_for p st 0 (visibleData p st) = Inr (children v)"
  using assms by (auto simp add: render_def split: sum.splits)

section \<open>The scenarios of the specification\<close>

text \<open>
  Claim C6. With a dataset of 100000 items, an item height of 60, a container height of
  600 and a buffer of 3: after a scroll to offset 0 the window is
  \<open>startIndex = 0\<close>, \<open>endIndex = 13\<close> and 14 items are materialized; after a scroll to
  offset 6000 the window is \<open>startIndex = 97\<close>, \<open>endIndex = 113\<close>.
\<close>

theorem scenario_A_B:
  assumes "length (props_data p) = 100000" and "props_itemHeight p = Fin 60"
    and "props_buffer p = Some (Fin 3)" and "containerHeight st = Fin 600"
  shows "startIndex p (handleScroll (Fin 0) st) = Fin 0
       \<and> endIndex p (handleScroll (Fin 0) st) = Fin 13
       \<and> length (visibleData p (handleScroll (Fin 0) st)) = 14
       \<and> startIndex p (handleScroll (Fin 6000) st) = Fin 97
       \<and> endIndex p (handleScroll (Fin 6000) st) = Fin 113"
proof -
  have b: "buffer p = Fin 3" using assms(3) by (simp add: buffer_def)
  have s0: "startIndex p (handleScroll (Fin 0) st) = Fin 0"
    using assms(2) b by (simp add: startIndex_def handleScroll_def)
  have e0: "endIndex p (handleScroll (Fin 0) st) = Fin 13"
    using assms b by (simp add: endIndex_def handleScroll_def)
  have "length (slice (props_data p) (Fin (of_int 0)) (js_add (Fin (of_int 13)) (Fin 1)))
          = nat (13 - 0 + 1)"
    by (rule length_slice_window) (simp_all add: assms(1))
  then have l0: "length (visibleData p (handleScroll (Fin 0) st)) = 14"
    by (simp add: visibleData_def s0 e0)
  have s1: "startIndex p (handleScroll (Fin 6000) st) = Fin 97"
    using assms(2) b by (simp add: startIndex_def handleScroll_def)
  have e1: "endIndex p (handleScroll (Fin 6000) st) = Fin 113"
    using assms b by (simp add: endIndex_def handleScroll_def)
  show ?thesis using s0 e0 l0 s1 e1 by simp
qed

theorem scenario_A_B_witness:
  "startIndex \<lparr>props_data = replicate 100000 (IObj []), props_height = HNum (Fin 600),
       props_itemHeight = Fin 60, props_keyField = None, props_buffer = Some (Fin 3)\<rparr>
     (handleScroll (Fin 6000) \<lparr>scrollTop = Fin 0, containerHeight = Fin 600\<rparr>) = Fin 97
   \<and> endIndex \<lparr>props_data = replicate 100000 (IObj []), props_height = HNum (Fin 600),
       props_itemHeight = Fin 60, props_keyField = None, props_buffer = Some (Fin 3)\<rparr>
     (handleScroll (Fin 6000) \<lparr>scrollTop = Fin 0, containerHeight = Fin 600\<rparr>) = Fin 113"
  using scenario_A_B [of "\<lparr>props_data = replicate 100000 (IObj []), props_height = HNum (Fin 600),
       props_itemHeight = Fin 60, props_keyField = None, props_buffer = Some (Fin 3)\<rparr>"
       "\<lparr>scrollTop = Fin 0, containerHeight = Fin 600\<rparr>"]
  by simp

section \<open>The default buffer\<close>

text \<open>
  Claim C9. When the caller passes \<open>buffer = 0\<close> (or the other falsy number, NaN), the
  buffer of the window computation is the default 5: the window and the slice are those of
  a component without the prop. No configuration yields a buffer of 0.
\<close>

theorem zero_buffer_is_default:
  assumes "props_buffer p = Some (Fin 0) \<or> props_buffer p = Some NaN"
  shows "buffer p = Fin 5
       \<and> startIndex p st = startIndex (p\<lparr>props_buffer := None\<rparr>) st
       \<and> endIndex p st = endIndex (p\<lparr>props_buffer := None\<rparr>) st
       \<and> visibleData p st = visibleData (p\<lparr>props_buffer := None\<rparr>) st
       \<and> (\<forall>q. buffer q \<noteq> Fin 0)"
proof -
  have "buffer q \<noteq> Fin 0" for q
    by (simp add: buffer_def defaultBuffer_def split: option.split)
  then show ?thesis using assms
    by (auto simp add: buffer_def defaultBuffer_def startIndex_def endIndex_def visibleData_def)
qed

theorem zero_buffer_is_default_witness:
  "buffer \<lparr>props_data = [IObj [(''id'', JNum (Fin 1))]], props_height = HNum (Fin 600),
            props_itemHeight = Fin 60, props_keyField = None,
            props_buffer = Some (Fin 0)\<rparr> = Fin 5"
  using zero_buffer_is_default [of "\<lparr>props_data = [IObj [(''id'', JNum (Fin 1))]],
            props_height = HNum (Fin 600), props_itemHeight = Fin 60, props_keyField = None,
            props_buffer = Some (Fin 0)\<rparr>" init_state]
  by simp

section \<open>Bounds on the window\<close>

text \<open>
  Claim C1, as stated, fails: \<open>startIndex\<close> is bounded below by 0 only. With one item of
  height 10, the default buffer and a scroll offset of 1000 the start index is 95 while the
  end index is 0; with three items and a buffer of -3 the end index is -2.
\<close>

theorem window_bounds_counterexample:
  "startIndex \<lparr>props_data = [IObj [(''id'', JNum (Fin 1))]], props_height = HNum (Fin 100),
        props_itemHeight = Fin 10, props_keyField = None, props_buffer = None\<rparr>
      \<lparr>scrollTop = Fin 1000, containerHeight = Fin 100\<rparr> = Fin 95
   \<and> endIndex \<lparr>props_data = [IObj [(''id'', JNum (Fin 1))]], props_height = HNum (Fin 100),
        props_itemHeight = Fin 10, props_keyField = None, props_buffer = None\<rparr>
      \<lparr>scrollTop = Fin 1000, containerHeight = Fin 100\<rparr> = Fin 0
   \<and> endIndex \<lparr>props_data = [IObj [], IObj [], IObj []], props_height = HNum (Fin 10),
        props_itemHeight = Fin 10, props_keyField = None, props_buffer = Some (Fin (- 3))\<rparr>
      \<lparr>scrollTop = Fin 0, containerHeight = Fin 10\<rparr> = Fin (- 2)"
  by (simp add: startIndex_def endIndex_def buffer_def defaultBuffer_def)

text \<open>
  Claim C1, amended. For a positive item height and a non-negative scroll offset and
  container height, the start index is never negative and the end index never exceeds
  \<open>L - 1\<close>. When moreover the buffer in effect is non-negative and the scroll offset is at
  most \<open>(L - 1) * itemHeight\<close>, both indices are integers and
  \<open>0 \<le> startIndex \<le> endIndex \<le> L - 1\<close>. Both parts rest on the order of the values
  only: rounding to a double is monotone and leaves 0 and \<open>L - 1\<close> as they are.
\<close>

theorem window_bounds:
  assumes "props_itemHeight p = Fin h" and "0 < h"
    and "scrollTop st = Fin s" and "0 \<le> s"
    and "containerHeight st = Fin c" and "0 \<le> c"
    and "buffer p = Fin b"
  shows "\<not> js_lt (startIndex p st) (Fin 0)
       \<and> \<not> js_lt (Fin (of_nat (length (props_data p)) - 1)) (endIndex p st)
       \<and> (0 \<le> b \<and> s \<le> (of_nat (length (props_data p)) - 1) * h \<longrightarrow>
            (\<exists>a e. startIndex p st = Fin (of_int a) \<and> endIndex p st = Fin (of_int e)
                   \<and> 0 \<le> a \<and> a \<le> e \<and> e \<le> int (length (props_data p)) - 1))"
proof -
  let ?L = "length (props_data p)"
  let ?a = "\<lfloor>max 0 (s - b * h) / h\<rfloor>"
  let ?e = "min (int ?L - 1) \<lceil>(s + c + b * h) / h\<rceil>"
  have h0: "h \<noteq> 0" using assms(2) by simp
  have sa: "startIndex p st = Fin (of_int ?a)"
    using assms(1) h0 assms(3) assms(7) by (rule startIndex_fin)
  have ea: "endIndex p st = Fin (of_int ?e)"
    using assms(1) h0 assms(3) assms(5) assms(7) by (rule endIndex_fin)
  have a0: "0 \<le> ?a" using assms(2) by (rule start_nonneg)
  have eL: "?e \<le> int ?L - 1" by simp
  have lo: "\<not> js_lt (startIndex p st) (Fin 0)"
    unfolding sa using a0 by simp
  have "(of_int ?e :: rat) \<le> of_int (int ?L - 1)" using eL by (simp only: of_int_le_iff)
  then have hi: "\<not> js_lt (Fin (of_nat ?L - 1)) (endIndex p st)"
    unfolding ea by simp
  have chain: "?a \<le> ?e" if "0 \<le> b" "s \<le> (of_nat ?L - 1) * h"
  proof -
    have "(of_nat ?L - 1) * h < of_nat ?L * h" using assms(2) by (simp add: algebra_simps)
    then have "s < of_nat ?L * h" using that(2) by simp
    then have "?a \<le> int ?L - 1"
      using assms(2) assms(4) that(1) by (intro start_lt_length)
    moreover have "?a \<le> \<lceil>(s + c + b * h) / h\<rceil>"
      using assms(2) assms(4) assms(6) that(1) by (rule start_le_ceiling)
    ultimately show ?thesis by simp
  qed
  have "\<exists>a e. startIndex p st = Fin (of_int a) \<and> endIndex p st = Fin (of_int e)
           \<and> 0 \<le> a \<and> a \<le> e \<and> e \<le> int ?L - 1"
    if "0 \<le> b" "s \<le> (of_nat ?L - 1) * h"
    using sa ea a0 eL chain [OF that] by blast
  then show ?thesis using lo hi by blast
qed

theorem window_bounds_witness:
  "\<exists>a e. startIndex \<lparr>props_data = [IObj [], IObj [], IObj [], IObj []],
              props_height = HNum (Fin 10), props_itemHeight = Fin 10, props_keyField = None,
              props_buffer = None\<rparr> \<lparr>scrollTop = Fin 20, containerHeight = Fin 10\<rparr>
            = Fin (of_int a)
     \<and> endIndex \<lparr>props_data = [IObj [], IObj [], IObj [], IObj []],
              props_height = HNum (Fin 10), props_itemHeight = Fin 10, props_keyField = None,
              props_buffer = None\<rparr> \<lparr>scrollTop = Fin 20, containerHeight = Fin 10\<rparr>
            = Fin (of_int e)
     \<and> 0 \<le> a \<and> a \<le> e \<and> e \<le> 3"
  using window_bounds [of "\<lparr>props_data = [IObj [], IObj [], IObj [], IObj []],
              props_height = HNum (Fin 10), props_itemHeight = Fin 10, props_keyField = None,
              props_buffer = None\<rparr>" 10 "\<lparr>scrollTop = Fin 20, containerHeight = Fin 10\<rparr>"
              20 10 5]
  by (simp add: buffer_def defaultBuffer_def)

section \<open>The size of the materialized slice\<close>




section \<open>Heights and offset\<close>

text \<open>
  Claim C5. The total height is the length of the dataset times the item height, whatever
  the window is, and the offset is the start index times the item height; these are the
  two values a render pass hands to the host.
\<close>

theorem render_heights:
  "totalHeight p = js_mul (Fin (of_nat (length (props_data p)))) (props_itemHeight p)
   \<and> offsetY p st = js_mul (startIndex p st) (props_itemHeight p)
   \<and> (\<forall>v. render p st = Inr v \<longrightarrow>
          wrapper_height v = totalHeight p \<and> translateY v = offsetY p st)
   \<and> (\<forall>h. props_itemHeight p = Fin h \<longrightarrow>
          totalHeight p = Fin (of_nat (length (props_data p)) * h))
   \<and> (\<forall>h a. props_itemHeight p = Fin h \<and> startIndex p st = Fin a \<longrightarrow>
          offsetY p st = Fin (a * h))"
proof -
  have "wrapper_height v = totalHeight p \<and> translateY v = offsetY p st"
    if "render p st = Inr v" for v
    using that by (auto simp add: render_def split: sum.splits)
  then show ?thesis by (simp add: totalHeight_def offsetY_def)
qed

theorem render_heights_witness:
  "totalHeight \<lparr>props_data = [IObj [], IObj [], IObj []], props_height = HNum (Fin 600),
        props_itemHeight = Fin 60, props_keyField = None, props_buffer = None\<rparr> = Fin 180
   \<and> offsetY \<lparr>props_data = [IObj [], IObj [], IObj []], props_height = HNum (Fin 600),
        props_itemHeight = Fin 60, props_keyField = None, props_buffer = Some (Fin 1)\<rparr>
        \<lparr>scrollTop = Fin 120, containerHeight = Fin 600\<rparr> = Fin 60"
  using render_heights [of "\<lparr>props_data = [IObj [], IObj [], IObj []],
        props_height = HNum (Fin 600), props_itemHeight = Fin 60, props_keyField = None,
        props_buffer = None\<rparr>" init_state]
     render_heights [of "\<lparr>props_data = [IObj [], IObj [], IObj []],
        props_height = HNum (Fin 600), props_itemHeight = Fin 60, props_keyField = None,
        props_buffer = Some (Fin 1)\<rparr>" "\<lparr>scrollTop = Fin 120, containerHeight = Fin 600\<rparr>"]
  by (simp add: startIndex_def buffer_def)

section \<open>The empty dataset\<close>

text \<open>
  Claim C7. With an empty dataset, for every scroll offset and container height, no item
  is materialized and none is emitted, the total height is 0 for every finite item
  height, and the index range is empty (\<open>endIndex < startIndex\<close>).
\<close>

theorem empty_dataset:
  assumes "props_data p = []"
  shows "visibleData p st = []
       \<and> render p st = Inr \<lparr>wrapper_height = totalHeight p, translateY = offsetY p st,
                               children = []\<rparr>
       \<and> (\<forall>h. props_itemHeight p = Fin h \<longrightarrow> totalHeight p = Fin 0)
       \<and> (\<forall>h s c b. props_itemHeight p = Fin h \<and> 0 < h \<and> scrollTop st = Fin s
              \<and> containerHeight st = Fin c \<and> buffer p = Fin b \<longrightarrow>
            (\<exists>a e. startIndex p st = Fin (of_int a) \<and> endIndex p st = Fin (of_int e)
                    \<and> e < a))"
proof -
  have vd: "visibleData p st = []" using assms by (simp add: visibleData_def slice_Nil)
  have rn: "render p st = Inr \<lparr>wrapper_height = totalHeight p, translateY = offsetY p st,
                               children = []\<rparr>"
    using vd by (rule render_no_data)
  have th: "totalHeight p = Fin 0" if "props_itemHeight p = Fin h" for h
    using assms that by (simp add: totalHeight_def)
  have win: "\<exists>a e. startIndex p st = Fin (of_int a) \<and> endIndex p st = Fin (of_int e) \<and> e < a"
    if "props_itemHeight p = Fin h" "0 < h" "scrollTop st = Fin s"
       "containerHeight st = Fin c" "buffer p = Fin b" for h s c b
  proof -
    let ?a = "\<lfloor>max 0 (s - b * h) / h\<rfloor>"
    let ?e = "min (int (length (props_data p)) - 1) \<lceil>(s + c + b * h) / h\<rceil>"
    have h0: "h \<noteq> 0" using that(2) by simp
    have sa: "startIndex p st = Fin (of_int ?a)"
      using that(1) h0 that(3) that(5) by (rule startIndex_fin)
    have ea: "endIndex p st = Fin (of_int ?e)"
      using that(1) h0 that(3) that(4) that(5) by (rule endIndex_fin)
    have a0: "0 \<le> ?a" using that(2) by (rule start_nonneg)
    have "?e \<le> - 1" using assms by simp
    then have "?e < ?a" using a0 by linarith
    then show ?thesis using sa ea by blast
  qed
  show ?thesis using vd rn th win by blast
qed

theorem empty_dataset_witness:
  "render \<lparr>props_data = [], props_height = HNum (Fin 600), props_itemHeight = Fin 60,
           props_keyField = None, props_buffer = None\<rparr>
          \<lparr>scrollTop = Fin 120, containerHeight = Fin 600\<rparr>
     = Inr \<lparr>wrapper_height = Fin 0, translateY = Fin 0, children = []\<rparr>
   \<and> totalHeight \<lparr>props_data = [], props_height = HNum (Fin 600), props_itemHeight = Fin 60,
           props_keyField = None, props_buffer = None\<rparr> = Fin 0"
  using empty_dataset [of "\<lparr>props_data = [], props_height = HNum (Fin 600),
           props_itemHeight = Fin 60, props_keyField = None, props_buffer = None\<rparr>"
          "\<lparr>scrollTop = Fin 120, containerHeight = Fin 600\<rparr>"]
  by (simp add: offsetY_def startIndex_def buffer_def defaultBuffer_def totalHeight_def)

section \<open>Resizing the container\<close>

text \<open>
  Claim C8. When the container height shrinks from 600 to 300 and the scroll offset, the
  item height, the buffer and the dataset stay as they are, the start index is unchanged
  (it does not read the container height) and, for a positive item height, the end index
  does not grow: the window loses items at its end only. For a non-negative scroll offset
  and buffer the materialized slice does not get longer either.
\<close>

theorem resize_600_to_300:
  assumes "props_itemHeight p = Fin h" and "0 < h"
    and "scrollTop st = Fin s" and "buffer p = Fin b"
  shows "startIndex p (st\<lparr>containerHeight := Fin 300\<rparr>)
           = startIndex p (st\<lparr>containerHeight := Fin 600\<rparr>)
       \<and> (\<exists>a e e'. startIndex p (st\<lparr>containerHeight := Fin 600\<rparr>) = Fin (of_int a)
              \<and> endIndex p (st\<lparr>containerHeight := Fin 600\<rparr>) = Fin (of_int e)
              \<and> endIndex p (st\<lparr>containerHeight := Fin 300\<rparr>) = Fin (of_int e')
              \<and> e' \<le> e \<and> e' - a + 1 \<le> e - a + 1)
       \<and> (0 \<le> s \<and> 0 \<le> b \<longrightarrow>
            length (visibleData p (st\<lparr>containerHeight := Fin 300\<rparr>))
              \<le> length (visibleData p (st\<lparr>containerHeight := Fin 600\<rparr>)))"
proof -
  let ?L = "length (props_data p)"
  let ?st6 = "st\<lparr>containerHeight := Fin 600\<rparr>"
  let ?st3 = "st\<lparr>containerHeight := Fin 300\<rparr>"
  let ?a = "\<lfloor>max 0 (s - b * h) / h\<rfloor>"
  let ?e6 = "min (int ?L - 1) \<lceil>(s + 600 + b * h) / h\<rceil>"
  let ?e3 = "min (int ?L - 1) \<lceil>(s + 300 + b * h) / h\<rceil>"
  have h0: "h \<noteq> 0" using assms(2) by simp
  have s6: "scrollTop ?st6 = Fin s" and s3: "scrollTop ?st3 = Fin s"
    using assms(3) by simp_all
  have c6: "containerHeight ?st6 = Fin 600" and c3: "containerHeight ?st3 = Fin 300"
    by simp_all
  have same: "startIndex p ?st3 = startIndex p ?st6"
    by (simp only: startIndex_containerHeight)
  have sa6: "startIndex p ?st6 = Fin (of_int ?a)"
    using assms(1) h0 s6 assms(4) by (rule startIndex_fin)
  have ea6: "endIndex p ?st6 = Fin (of_int ?e6)"
    using assms(1) h0 s6 c6 assms(4) by (rule endIndex_fin)
  have ea3: "endIndex p ?st3 = Fin (of_int ?e3)"
    using assms(1) h0 s3 c3 assms(4) by (rule endIndex_fin)
  have le: "?e3 \<le> ?e6" using assms(2) by (rule end_mono) simp
  have len: "length (visibleData p ?st3) \<le> length (visibleData p ?st6)"
    if "0 \<le> s" "0 \<le> b"
  proof -
    have a0: "0 \<le> ?a" using assms(2) by (rule start_nonneg)
    have m6: "- 1 \<le> ?e6" using assms(2) that(1) _ that(2) by (rule end_ge_minus_one) simp
    have m3: "- 1 \<le> ?e3" using assms(2) that(1) _ that(2) by (rule end_ge_minus_one) simp
    have l6: "length (visibleData p ?st6) = nat (?e6 - ?a + 1)"
      unfolding visibleData_def sa6 ea6 by (rule length_slice_window [OF a0 m6]) simp
    have l3: "length (visibleData p ?st3) = nat (?e3 - ?a + 1)"
      unfolding visibleData_def same sa6 ea3 by (rule length_slice_window [OF a0 m3]) simp
    show ?thesis unfolding l6 l3 using le by linarith
  qed
  have "\<exists>a e e'. startIndex p ?st6 = Fin (of_int a) \<and> endIndex p ?st6 = Fin (of_int e)
          \<and> endIndex p ?st3 = Fin (of_int e') \<and> e' \<le> e \<and> e' - a + 1 \<le> e - a + 1"
    using sa6 ea6 ea3 le by (intro exI [of _ ?a] exI [of _ ?e6] exI [of _ ?e3]) simp
  then show ?thesis using same len by blast
qed

theorem resize_600_to_300_witness:
  "length (visibleData \<lparr>props_data = replicate 100 (IObj []), props_height = HNum (Fin 300),
        props_itemHeight = Fin 60, props_keyField = None, props_buffer = Some (Fin 3)\<rparr>
      (\<lparr>scrollTop = Fin 600, containerHeight = Fin 0\<rparr>\<lparr>containerHeight := Fin 300\<rparr>))
   \<le> length (visibleData \<lparr>props_data = replicate 100 (IObj []), props_height = HNum (Fin 300),
        props_itemHeight = Fin 60, props_keyField = None, props_buffer = Some (Fin 3)\<rparr>
      (\<lparr>scrollTop = Fin 600, containerHeight = Fin 0\<rparr>\<lparr>containerHeight := Fin 600\<rparr>))"
  using resize_600_to_300 [of "\<lparr>props_data = replicate 100 (IObj []),
        props_height = HNum (Fin 300), props_itemHeight = Fin 60, props_keyField = None,
        props_buffer = Some (Fin 3)\<rparr>" 60 "\<lparr>scrollTop = Fin 600, containerHeight = Fin 0\<rparr>"
        600 3]
  by (simp add: buffer_def)

section \<open>The extracted slice\<close>

text \<open>
  Claim C10, as stated, fails on an end index below -1: \<open>slice\<close> counts a negative end from
  the end of the array. With 10 items of height 10, a buffer of 1, a container height of 0
  and a scroll offset of -30, the range is inverted (\<open>startIndex = 0\<close>, \<open>endIndex = -2\<close>)
  and 9 items are materialized.
\<close>

theorem slice_extraction_counterexample:
  "startIndex \<lparr>props_data = replicate 10 (IObj [(''id'', JNum (Fin 7))]),
        props_height = HStr ''50%'', props_itemHeight = Fin 10, props_keyField = None,
        props_buffer = Some (Fin 1)\<rparr> \<lparr>scrollTop = Fin (- 30), containerHeight = Fin 0\<rparr>
     = Fin 0
   \<and> endIndex \<lparr>props_data = replicate 10 (IObj [(''id'', JNum (Fin 7))]),
        props_height = HStr ''50%'', props_itemHeight = Fin 10, props_keyField = None,
        props_buffer = Some (Fin 1)\<rparr> \<lparr>scrollTop = Fin (- 30), containerHeight = Fin 0\<rparr>
     = Fin (- 2)
   \<and> length (visibleData \<lparr>props_data = replicate 10 (IObj [(''id'', JNum (Fin 7))]),
        props_height = HStr ''50%'', props_itemHeight = Fin 10, props_keyField = None,
        props_buffer = Some (Fin 1)\<rparr> \<lparr>scrollTop = Fin (- 30), containerHeight = Fin 0\<rparr>)
     = 9"
  by code_simp

text \<open>
  Claim C10, amended. For a positive item height and a finite scroll offset and buffer, the
  start index is a non-negative integer and every materialized item, and every emitted
  pair of item and index, is the item of the dataset at that index, which lies within the
  dataset. When the end index is at least -1 and the range is inverted or starts beyond
  the dataset, nothing is materialized or emitted; the end index is at least -1 as soon as
  scroll offset, container height and buffer are non-negative. The rendering of a dataset
  of objects returns.
\<close>

theorem slice_extraction:
  assumes "props_itemHeight p = Fin h" and "0 < h"
    and "scrollTop st = Fin s" and "buffer p = Fin b"
  shows "\<exists>a. 0 \<le> a \<and> startIndex p st = Fin (of_int a)
     \<and> (\<forall>j < length (visibleData p st).
            nat a + j < length (props_data p)
          \<and> visibleData p st ! j = props_data p ! (nat a + j))
     \<and> (\<forall>v. render p st = Inr v \<longrightarrow>
            length (children v) = length (visibleData p st)
          \<and> (\<forall>j < length (children v).
                nat a + j < length (props_data p)
              \<and> slot_index (children v ! j) = Fin (of_nat (nat a + j))
              \<and> slot_item (children v ! j) = props_data p ! (nat a + j)))
     \<and> (\<forall>e. endIndex p st = Fin (of_int e) \<and> - 1 \<le> e
              \<and> (e < a \<or> int (length (props_data p)) \<le> a) \<longrightarrow>
            visibleData p st = [] \<and> (\<forall>v. render p st = Inr v \<longrightarrow> children v = []))
     \<and> (\<forall>c. containerHeight st = Fin c \<and> 0 \<le> s \<and> 0 \<le> c \<and> 0 \<le> b \<longrightarrow>
            (\<exists>e. endIndex p st = Fin (of_int e) \<and> - 1 \<le> e))
     \<and> ((\<forall>x \<in> set (props_data p). is_object x) \<longrightarrow> (\<exists>v. render p st = Inr v))"
proof -
  let ?a = "\<lfloor>max 0 (s - b * h) / h\<rfloor>"
  let ?xs = "props_data p"
  have tot: "(\<forall>x \<in> set ?xs. is_object x) \<longrightarrow> (\<exists>v. render p st = Inr v)"
    using render_total [of p st] by blast
  have h0: "h \<noteq> 0" using assms(2) by simp
  have sa: "startIndex p st = Fin (of_int ?a)"
    using assms(1) h0 assms(3) assms(4) by (rule startIndex_fin)
  have a0: "0 \<le> ?a" using assms(2) by (rule start_nonneg)
  have vis: "nat ?a + j < length ?xs \<and> visibleData p st ! j = ?xs ! (nat ?a + j)"
    if "j < length (visibleData p st)" for j
    using that unfolding visibleData_def sa by (rule slice_from_start [OF a0])
  have ren: "length (children v) = length (visibleData p st)
          \<and> (\<forall>j < length (children v).
                nat ?a + j < length ?xs
              \<and> slot_index (children v ! j) = Fin (of_nat (nat ?a + j))
              \<and> slot_item (children v ! j) = ?xs ! (nat ?a + j))"
    if "render p st = Inr v" for v
  proof -
    note vf = v_for_children [OF render_children [OF that]]
    have len: "length (children v) = length (visibleData p st)" using vf by simp
    have "nat ?a + j < length ?xs
              \<and> slot_index (children v ! j) = Fin (of_nat (nat ?a + j))
              \<and> slot_item (children v ! j) = ?xs ! (nat ?a + j)"
      if j: "j < length (children v)" for j
    proof -
      have jv: "j < length (visibleData p st)" using j len by simp
      have "slot_index (children v ! j) = js_add (Fin (of_int ?a)) (Fin (of_nat j))"
        using vf jv sa by simp
      also have "\<dots> = Fin (of_nat (nat ?a + j))" using a0 by simp
      finally have "slot_index (children v ! j) = Fin (of_nat (nat ?a + j))" .
      moreover have "slot_item (children v ! j) = visibleData p st ! j"
        using vf jv by simp
      ultimately show ?thesis using vis [OF jv] by simp
    qed
    then show ?thesis using len by blast
  qed
  have emp: "visibleData p st = [] \<and> (\<forall>v. render p st = Inr v \<longrightarrow> children v = [])"
    if "endIndex p st = Fin (of_int e)" "- 1 \<le> e" "e < ?a \<or> int (length ?xs) \<le> ?a" for e
  proof -
    have vd: "visibleData p st = []"
      unfolding visibleData_def sa that(1) using a0 that(2) that(3) by (rule slice_inverted)
    have "children v = []" if "render p st = Inr v" for v
      using render_children [OF that] vd by simp
    then show ?thesis using vd by blast
  qed
  have nonneg: "\<exists>e. endIndex p st = Fin (of_int e) \<and> - 1 \<le> e"
    if "containerHeight st = Fin c" "0 \<le> s" "0 \<le> c" "0 \<le> b" for c
  proof -
    let ?e = "min (int (length ?xs) - 1) \<lceil>(s + c + b * h) / h\<rceil>"
    have "endIndex p st = Fin (of_int ?e)"
      using assms(1) h0 assms(3) that(1) assms(4) by (rule endIndex_fin)
    moreover have "- 1 \<le> ?e" using assms(2) that(2) that(3) that(4) by (rule end_ge_minus_one)
    ultimately show ?thesis by blast
  qed
  show ?thesis
  proof (intro exI [of _ ?a] conjI)
    show "0 \<le> ?a" by (rule a0)
    show "startIndex p st = Fin (of_int ?a)" by (rule sa)
  qed (use vis ren emp nonneg tot in blast)+
qed

theorem slice_extraction_witness:
  "visibleData \<lparr>props_data = [IObj [(''id'', JNum (Fin 1))], IObj [(''id'', JNum (Fin 2))],
                                IObj [(''id'', JNum (Fin 3))]],
        props_height = HNum (Fin 10), props_itemHeight = Fin 10, props_keyField = None,
        props_buffer = Some (Fin 1)\<rparr> \<lparr>scrollTop = Fin 20, containerHeight = Fin 10\<rparr> ! 0
     = IObj [(''id'', JNum (Fin 2))]"
  using slice_extraction [of "\<lparr>props_data = [IObj [(''id'', JNum (Fin 1))],
        IObj [(''id'', JNum (Fin 2))], IObj [(''id'', JNum (Fin 3))]],
        props_height = HNum (Fin 10), props_itemHeight = Fin 10, props_keyField = None,
        props_buffer = Some (Fin 1)\<rparr>" 10 "\<lparr>scrollTop = Fin 20, containerHeight = Fin 10\<rparr>"
        20 1]
  by (auto simp add: buffer_def visibleData_def slice_def startIndex_def endIndex_def)

section \<open>Keys of the emitted items\<close>

text \<open>
  Claim C4, as stated, fails. With a start index of 1, the item without an \<open>id\<close> at
  dataset index 1 gets the key 0, its position in the slice, and the item at dataset
  index 2, whose \<open>id\<close> is 0, gets the key 1.
\<close>

theorem child_keys_counterexample:
  "render \<lparr>props_data = [IObj [(''id'', JNum (Fin 7))], IObj [(''name'', JStr ''b'')],
                          IObj [(''id'', JNum (Fin 0))], IObj [(''id'', JNum (Fin 9))]],
           props_height = HNum (Fin 10), props_itemHeight = Fin 10, props_keyField = None,
           props_buffer = Some (Fin 1)\<rparr>
          \<lparr>scrollTop = Fin 20, containerHeight = Fin 10\<rparr>
   = Inr \<lparr>wrapper_height = Fin 40, translateY = Fin 10,
          children =
            [\<lparr>child_key = JNum (Fin 0), slot_item = IObj [(''name'', JStr ''b'')],
              slot_index = Fin 1\<rparr>,
             \<lparr>child_key = JNum (Fin 1), slot_item = IObj [(''id'', JNum (Fin 0))],
              slot_index = Fin 2\<rparr>,
             \<lparr>child_key = JNum (Fin 9), slot_item = IObj [(''id'', JNum (Fin 9))],
              slot_index = Fin 3\<rparr>]\<rparr>"
  by code_simp

text \<open>
  Claim C4, amended. For a dataset of objects the rendering succeeds, and the key of every
  emitted item is the value of its key field whenever that value is truthy; when the key
  field is absent, \<open>undefined\<close> or \<open>null\<close>, the key is the position of the item in the
  rendered slice, that is, its index in the dataset minus the start index.
\<close>

theorem child_keys:
  assumes "\<forall>x \<in> set (props_data p). is_object x"
  shows "\<exists>v. render p st = Inr v
     \<and> length (children v) = length (visibleData p st)
     \<and> (\<forall>j < length (children v).
            slot_item (children v ! j) = visibleData p st ! j
          \<and> slot_index (children v ! j) = js_add (startIndex p st) (Fin (of_nat j))
          \<and> (\<exists>x. get_prop (slot_item (children v ! j)) (keyField p) = Inr x
                 \<and> (truthy x \<longrightarrow> child_key (children v ! j) = x)
                 \<and> (x = Undefined \<or> x = Null \<longrightarrow>
                      child_key (children v ! j) = JNum (Fin (of_nat j)))))"
proof -
  from render_total [OF assms] obtain v where v: "render p st = Inr v" ..
  note vf = v_for_children [OF render_children [OF v]]
  have len: "length (children v) = length (visibleData p st)" using vf by simp
  have "slot_item (children v ! j) = visibleData p st ! j
          \<and> slot_index (children v ! j) = js_add (startIndex p st) (Fin (of_nat j))
          \<and> (\<exists>x. get_prop (slot_item (children v ! j)) (keyField p) = Inr x
                 \<and> (truthy x \<longrightarrow> child_key (children v ! j) = x)
                 \<and> (x = Undefined \<or> x = Null \<longrightarrow>
                      child_key (children v ! j) = JNum (Fin (of_nat j))))"
    if "j < length (children v)" for j
  proof -
    have jv: "j < length (visibleData p st)" using that len by simp
    from vf jv obtain x where
      it: "slot_item (children v ! j) = visibleData p st ! j" and
      ix: "slot_index (children v ! j) = js_add (startIndex p st) (Fin (of_nat j))" and
      gx: "get_prop (visibleData p st ! j) (keyField p) = Inr x" and
      kx: "child_key (children v ! j) = js_or x (JNum (Fin (of_nat j)))"
      by auto
    have "truthy x \<longrightarrow> child_key (children v ! j) = x"
      using kx by (simp add: js_or_def)
    moreover have "x = Undefined \<or> x = Null \<longrightarrow>
                      child_key (children v ! j) = JNum (Fin (of_nat j))"
      using kx by (auto simp add: js_or_def)
    ultimately show ?thesis using it ix gx by simp
  qed
  then show ?thesis using v len by blast
qed

theorem child_keys_witness:
  "\<exists>v. render \<lparr>props_data = [IObj [(''id'', JStr ''a'')], IObj [(''name'', JStr ''b'')]],
           props_height = HNum (Fin 10), props_itemHeight = Fin 10, props_keyField = None,
           props_buffer = None\<rparr> \<lparr>scrollTop = Fin 0, containerHeight = Fin 10\<rparr> = Inr v
       \<and> length (children v) = 2"
  using child_keys [of "\<lparr>props_data = [IObj [(''id'', JStr ''a'')], IObj [(''name'', JStr ''b'')]],
           props_height = HNum (Fin 10), props_itemHeight = Fin 10, props_keyField = None,
           props_buffer = None\<rparr>" "\<lparr>scrollTop = Fin 0, containerHeight = Fin 10\<rparr>"]
  by (auto simp add: visibleData_def slice_def startIndex_def endIndex_def buffer_def
        defaultBuffer_def)

section \<open>An item height of zero\<close>

text \<open>
  Claim C3, as stated, fails: the component does not validate the item height. With an
  item height of 0 the rendering returns normally, with a start index and an offset of
  NaN, and every item of the dataset is emitted.
\<close>

theorem no_configuration_error_counterexample:
  "render \<lparr>props_data = [IObj [(''id'', JNum (Fin 1))], IObj [(''id'', JNum (Fin 2))]],
           props_height = HNum (Fin 600), props_itemHeight = Fin 0, props_keyField = None,
           props_buffer = None\<rparr>
          \<lparr>scrollTop = Fin 0, containerHeight = Fin 600\<rparr>
   = Inr \<lparr>wrapper_height = Fin 0, translateY = NaN,
          children =
            [\<lparr>child_key = JNum (Fin 1), slot_item = IObj [(''id'', JNum (Fin 1))],
              slot_index = NaN\<rparr>,
             \<lparr>child_key = JNum (Fin 2), slot_item = IObj [(''id'', JNum (Fin 2))],
              slot_index = NaN\<rparr>]\<rparr>
   \<and> startIndex \<lparr>props_data = [IObj [(''id'', JNum (Fin 1))], IObj [(''id'', JNum (Fin 2))]],
           props_height = HNum (Fin 600), props_itemHeight = Fin 0, props_keyField = None,
           props_buffer = None\<rparr>
          \<lparr>scrollTop = Fin 0, containerHeight = Fin 600\<rparr> = NaN"
  by code_simp

text \<open>
  Claim C3, amended. No error is raised for an item height of zero. With a non-negative
  scroll offset, a positive container height and a finite buffer, the window computation
  runs on the division by zero: the start index is NaN at scroll offset 0 and otherwise
  +Infinity for an item height of \<open>+0\<close> and -Infinity for \<open>-0\<close>; the end index is \<open>L - 1\<close>
  for \<open>+0\<close> and -Infinity for \<open>-0\<close>; the total height is zero and the offset is NaN. The
  slice is the whole dataset at scroll offset 0 and item height \<open>+0\<close>, and empty otherwise.
  Rendering a dataset of objects returns normally whatever the item height.
\<close>

theorem zero_item_height:
  assumes "props_itemHeight p = Fin 0 \<or> props_itemHeight p = NegZero"
    and "scrollTop st = Fin s" and "0 \<le> s"
    and "containerHeight st = Fin c" and "0 < c"
    and "buffer p = Fin b"
  shows "startIndex p st =
           (if s = 0 then NaN else if props_itemHeight p = NegZero then NInf else PInf)
       \<and> endIndex p st =
           (if props_itemHeight p = NegZero then NInf
            else Fin (of_nat (length (props_data p)) - 1))
       \<and> visibleData p st =
           (if s = 0 \<and> props_itemHeight p = Fin 0 then props_data p else [])
       \<and> totalHeight p = Fin 0
       \<and> offsetY p st = NaN
       \<and> ((\<forall>x \<in> set (props_data p). is_object x) \<longrightarrow>
            (\<exists>v. render p st = Inr v)
          \<and> (\<forall>q st'. props_data q = props_data p \<longrightarrow> (\<exists>v. render q st' = Inr v)))"
proof -
  have tot: "\<exists>v. render q st' = Inr v"
    if "\<forall>x \<in> set (props_data p). is_object x" "props_data q = props_data p" for q st'
    using that render_total [of q st'] by simp
  have th: "totalHeight p = Fin 0" using assms(1) by (auto simp add: totalHeight_def)
  from assms(1) show ?thesis
  proof
    assume h: "props_itemHeight p = Fin 0"
    have sa: "startIndex p st = (if s = 0 then NaN else PInf)"
      using h assms by (simp add: startIndex_def max_def)
    have ea: "endIndex p st = Fin (of_nat (length (props_data p)) - 1)"
      using h assms by (simp add: endIndex_def)
    have e1: "js_add (endIndex p st) (Fin 1) = Fin (of_int (int (length (props_data p))))"
      unfolding ea by simp
    have vd: "visibleData p st = (if s = 0 then props_data p else [])"
      unfolding visibleData_def sa e1 by (simp add: slice_def)
    have oy: "offsetY p st = NaN" unfolding offsetY_def sa using h by simp
    show ?thesis using h sa ea vd th oy render_total [of p st] tot by simp
  next
    assume h: "props_itemHeight p = NegZero"
    have sa: "startIndex p st = (if s = 0 then NaN else NInf)"
      using h assms by (simp add: startIndex_def max_def)
    have ea: "endIndex p st = NInf"
      using h assms by (simp add: endIndex_def)
    have vd: "visibleData p st = []"
      unfolding visibleData_def sa ea by (simp add: slice_def)
    have oy: "offsetY p st = NaN" unfolding offsetY_def sa using h by simp
    show ?thesis using h sa ea vd th oy render_total [of p st] tot by simp
  qed
qed

theorem zero_item_height_witness:
  "startIndex \<lparr>props_data = [IObj [(''id'', JNum (Fin 1))], IObj [(''id'', JNum (Fin 2))]],
           props_height = HNum (Fin 600), props_itemHeight = NegZero, props_keyField = None,
           props_buffer = None\<rparr> \<lparr>scrollTop = Fin 120, containerHeight = Fin 600\<rparr> = NInf
   \<and> (\<exists>v. render \<lparr>props_data = [IObj [(''id'', JNum (Fin 1))], IObj [(''id'', JNum (Fin 2))]],
           props_height = HNum (Fin 600), props_itemHeight = NegZero, props_keyField = None,
           props_buffer = None\<rparr> \<lparr>scrollTop = Fin 120, containerHeight = Fin 600\<rparr> = Inr v)"
  using zero_item_height [of "\<lparr>props_data = [IObj [(''id'', JNum (Fin 1))],
           IObj [(''id'', JNum (Fin 2))]],
           props_height = HNum (Fin 600), props_itemHeight = NegZero, props_keyField = None,
           props_buffer = None\<rparr>" "\<lparr>scrollTop = Fin 120, containerHeight = Fin 600\<rparr>" 120 600 5]
  by (simp add: buffer_def defaultBuffer_def)

end
